theory Spec2Isabelle
  imports Complex_Main "HOL-Library.AList"
begin

text \<open>
  A model of the reminder and logging core of the baby-care tracker: the entry
  sequence and its updates, the feeding scheduler with its periodic check, the weekly
  chart, and the request and failure handling of the insight service. Every function
  of the component is a function on an explicit state; a reading of the clock, a
  random id and the answers of the platform are arguments.
\<close>

section \<open>Data model (types.ts)\<close>

text \<open>
  Timestamps and durations are JavaScript numbers holding whole milliseconds and whole
  minutes; they are modelled as \<open>int\<close> (exact far beyond every date the program can
  handle). Amounts move in steps of one half and are modelled as \<open>rat\<close>. An optional
  field is an \<open>option\<close>.
\<close>

datatype EntryType =
  breast_left | breast_right | bottle | diaper_wet | diaper_dirty | diaper_both | sleep

record LogEntry =
  entry_id :: string
  type :: EntryType
  timestamp :: int
  duration :: "int option"
  amount :: "rat option"
  note_text :: "string option"

text \<open>The text of an entry type, as the string union of the source spells it.\<close>

fun type_str :: "EntryType \<Rightarrow> string" where
  "type_str breast_left = ''breast_left''"
| "type_str breast_right = ''breast_right''"
| "type_str bottle = ''bottle''"
| "type_str diaper_wet = ''diaper_wet''"
| "type_str diaper_dirty = ''diaper_dirty''"
| "type_str diaper_both = ''diaper_both''"
| "type_str sleep = ''sleep''"

text \<open>\<open>String.prototype.startsWith\<close> and \<open>String.prototype.includes\<close>.\<close>

fun startsWith :: "string \<Rightarrow> string \<Rightarrow> bool" where
  "startsWith s [] = True"
| "startsWith [] (c # cs) = False"
| "startsWith (x # xs) (c # cs) = (x = c \<and> startsWith xs cs)"

fun str_includes :: "string \<Rightarrow> string \<Rightarrow> bool" where
  "str_includes [] sub = (sub = [])"
| "str_includes (x # xs) sub = (startsWith (x # xs) sub \<or> str_includes xs sub)"

section \<open>JSON texts and exceptions\<close>

datatype js_error = SyntaxError | RequestError string

datatype json =
    JNull
  | JBool bool
  | JNumber rat
  | JString string
  | JArray "json list"
  | JObject "(string \<times> json) list"

text \<open>
  A string that the program hands to \<open>JSON.parse\<close> is modelled by what the parser
  makes of it: either it is a JSON text and denotes a value, or it is some other text
  (the empty string among them). \<open>JSON.parse\<close> returns the value of the first and throws
  a \<open>SyntaxError\<close> on the second. Only the empty string is falsy.
\<close>

datatype js_text = JSON_text json | Other_text string

fun JSON_parse :: "js_text \<Rightarrow> js_error + json" where
  "JSON_parse (JSON_text v) = Inr v"
| "JSON_parse (Other_text s) = Inl SyntaxError"

fun truthy_text :: "js_text \<Rightarrow> bool" where
  "truthy_text (JSON_text v) = True"
| "truthy_text (Other_text s) = (s \<noteq> [])"

text \<open>\<open>try { body } catch (error) { handler }\<close> over results that may be a thrown error.\<close>

definition try_catch :: "js_error + 'a \<Rightarrow> (js_error \<Rightarrow> js_error + 'a) \<Rightarrow> js_error + 'a" where
  "try_catch body handler = (case body of Inl e \<Rightarrow> handler e | Inr v \<Rightarrow> Inr v)"

section \<open>Numbers\<close>

text \<open>
  A JavaScript number is a double. The numbers of the scheduler hold integers, which a
  double holds exactly up to \<open>2 ^ 53\<close> in magnitude; a sum or product beyond that is
  rounded to the nearest double, which keeps 53 binary digits, a tie going to the even
  one. \<open>int\<close> stands for the integers that are doubles. Results beyond the largest
  finite double, which the platform turns into \<open>Infinity\<close>, are not modelled.
\<close>

function bitLength :: "int \<Rightarrow> nat" where
  "bitLength n = (if n \<le> 0 then 0 else Suc (bitLength (n div 2)))"
  by pat_completeness auto
termination
  by (relation "measure nat") auto

declare bitLength.simps [simp del]

definition round_double :: "int \<Rightarrow> int" where
  "round_double x =
     (if \<bar>x\<bar> \<le> 2 ^ 53 then x
      else (let u = 2 ^ (bitLength \<bar>x\<bar> - 53);
                q = \<bar>x\<bar> div u;
                r = \<bar>x\<bar> mod u;
                q' = (if 2 * r < u \<or> (2 * r = u \<and> even q) then q else q + 1)
            in sgn x * (q' * u)))"

definition js_add :: "int \<Rightarrow> int \<Rightarrow> int" where
  "js_add a b = round_double (a + b)"

definition js_mul :: "int \<Rightarrow> int \<Rightarrow> int" where
  "js_mul a b = round_double (a * b)"

section \<open>Application state (the hooks of App)\<close>

datatype NotificationPermission = default | granted | denied

text \<open>
  The state of the component, one field per hook the modelled functions read or write.
  \<open>manualNextFeedingTime\<close> is \<open>number | null\<close>; \<open>None\<close> stands for \<open>null\<close> and for
  \<open>NaN\<close>, which every reader of the field treats alike (each use is a truthiness
  test). \<open>alertsFired\<close> and \<open>notificationAttempts\<close> are not fields of the source: they
  count the calls of \<open>triggerFeedingAlert\<close> and the platform notifications it tries
  to construct (a constructor that throws is caught there), so that the effect can be
  spoken about.
\<close>

record AppState =
  entries :: "LogEntry list"
  manualNextFeedingTime :: "int option"
  lastNotifiedRef :: "int option"
  isAlertVisible :: bool
  notificationPermission :: NotificationPermission
  pickerTime :: string
  isTimePickerOpen :: bool
  editingId :: "string option"
  alertsFired :: nat
  notificationAttempts :: nat

text \<open>Truthiness of \<open>manualNextFeedingTime\<close>: \<open>null\<close> and \<open>0\<close> are falsy.\<close>

fun truthy_time :: "int option \<Rightarrow> bool" where
  "truthy_time None = False"
| "truthy_time (Some t) = (t \<noteq> 0)"

text \<open>
  The state of a start with nothing stored: the initial values of the hooks, given the
  platform's notification permission and the text the time picker starts with.
\<close>

definition initialState :: "NotificationPermission \<Rightarrow> string \<Rightarrow> AppState" where
  "initialState permission picker =
     \<lparr>entries = [], manualNextFeedingTime = None, lastNotifiedRef = None,
      isAlertVisible = False, notificationPermission = permission, pickerTime = picker,
      isTimePickerOpen = False, editingId = None,
      alertsFired = 0, notificationAttempts = 0\<rparr>"

section \<open>Event store\<close>

text \<open>
  The entries initializer: \<open>saved ? JSON.parse(saved) : []\<close> on the item
  \<open>nurture_logs\<close>. Nothing catches what \<open>JSON.parse\<close> throws.
\<close>

definition initialEntries :: "(string \<rightharpoonup> js_text) \<Rightarrow> js_error + json" where
  "initialEntries localStorage =
     (case localStorage ''nurture_logs'' of
        None \<Rightarrow> Inr (JArray [])
      | Some saved \<Rightarrow> if truthy_text saved then JSON_parse saved else Inr (JArray []))"

text \<open>
  \<open>addEntry\<close>. \<open>newId\<close> is the text \<open>Math.random().toString(36).substr(2, 9)\<close>;
  \<open>now1\<close> and \<open>now2\<close> are the two readings of \<open>Date.now()\<close>, the first for the
  timestamp and the second for the next feeding time. A reading of the clock is a time
  value, far below \<open>2 ^ 53\<close>, so its sum with three hours is exact.
\<close>

definition addEntry ::
  "string \<Rightarrow> int \<Rightarrow> int \<Rightarrow> EntryType \<Rightarrow> rat option \<Rightarrow> int option \<Rightarrow> AppState \<Rightarrow> AppState" where
  "addEntry newId now1 now2 ty amt dur s =
     (let newEntry = \<lparr>entry_id = newId, type = ty, timestamp = now1,
                       duration = dur, amount = amt, note_text = None\<rparr>;
          s1 = s\<lparr>entries := newEntry # entries s\<rparr>
      in if str_includes (type_str ty) ''breast'' \<or> ty = bottle
         then (let autoNext = now2 + 3 * 60 * 60 * 1000
               in s1\<lparr>manualNextFeedingTime := Some autoNext,
                     isAlertVisible := False,
                     lastNotifiedRef := None\<rparr>)
         else s1)"

definition updateEntryAmount :: "string \<Rightarrow> rat \<Rightarrow> AppState \<Rightarrow> AppState" where
  "updateEntryAmount ident newAmount s =
     s\<lparr>entries := map (\<lambda>e. if entry_id e = ident then e\<lparr>amount := Some newAmount\<rparr> else e)
                       (entries s),
       editingId := None\<rparr>"

section \<open>Feed scheduler\<close>

definition triggerFeedingAlert :: "AppState \<Rightarrow> AppState" where
  "triggerFeedingAlert s =
     s\<lparr>isAlertVisible := True,
       alertsFired := alertsFired s + 1,
       notificationAttempts :=
         (if notificationPermission s = granted then notificationAttempts s + 1
          else notificationAttempts s)\<rparr>"

text \<open>One tick of the interval; \<open>now\<close> is the reading of \<open>Date.now()\<close>.\<close>

definition checkSchedule :: "int \<Rightarrow> AppState \<Rightarrow> AppState" where
  "checkSchedule now s =
     (if \<not> truthy_time (manualNextFeedingTime s) then s
      else (case manualNextFeedingTime s of
              None \<Rightarrow> s
            | Some t \<Rightarrow>
                if now \<ge> t \<and> lastNotifiedRef s \<noteq> Some t
                then (triggerFeedingAlert s)\<lparr>lastNotifiedRef := Some t\<rparr>
                else s))"

text \<open>
  \<open>adjustNextFeed\<close>; \<open>now\<close> is the reading of \<open>Date.now()\<close>. The sums and
  products are those of the platform's numbers.
\<close>

definition adjustNextFeed :: "int \<Rightarrow> int \<Rightarrow> AppState \<Rightarrow> AppState" where
  "adjustNextFeed now minutes s =
     (let base = (case manualNextFeedingTime s of
                    Some t \<Rightarrow> if t \<noteq> 0 then t else js_add now (3 * 60 * 60 * 1000)
                  | None \<Rightarrow> js_add now (3 * 60 * 60 * 1000));
          newTime = js_add base (js_mul (js_mul minutes 60) 1000)
      in s\<lparr>manualNextFeedingTime := Some newTime, isAlertVisible := False\<rparr>)"

section \<open>The platform's Date\<close>

text \<open>
  The time value of a \<open>Date\<close> is the number of milliseconds since the epoch, in UTC,
  or \<open>NaN\<close> for an invalid date: an \<open>int option\<close>. The functions below are the
  abstract operations of the language standard on time values; \<open>div\<close> and \<open>mod\<close> on
  \<open>int\<close> round towards minus infinity, as \<open>floor\<close> and the standard's modulo do.
\<close>

definition msPerDay :: int where "msPerDay = 86400000"
definition msPerHour :: int where "msPerHour = 3600000"
definition msPerMinute :: int where "msPerMinute = 60000"
definition msPerSecond :: int where "msPerSecond = 1000"

definition Day :: "int \<Rightarrow> int" where
  "Day t = t div msPerDay"

definition TimeWithinDay :: "int \<Rightarrow> int" where
  "TimeWithinDay t = t mod msPerDay"

definition HourFromTime :: "int \<Rightarrow> int" where
  "HourFromTime t = (t mod msPerDay) div msPerHour"

definition MinFromTime :: "int \<Rightarrow> int" where
  "MinFromTime t = (t mod msPerHour) div msPerMinute"

definition SecFromTime :: "int \<Rightarrow> int" where
  "SecFromTime t = (t mod msPerMinute) div msPerSecond"

definition msFromTime :: "int \<Rightarrow> int" where
  "msFromTime t = t mod msPerSecond"

definition MakeTime :: "int \<Rightarrow> int \<Rightarrow> int \<Rightarrow> int \<Rightarrow> int" where
  "MakeTime hour minute sec ms = hour * msPerHour + minute * msPerMinute + sec * msPerSecond + ms"

definition MakeDate :: "int \<Rightarrow> int \<Rightarrow> int" where
  "MakeDate day time = day * msPerDay + time"

definition TimeClip :: "int \<Rightarrow> int option" where
  "TimeClip t = (if \<bar>t\<bar> \<le> 8640000000000000 then Some t else None)"

text \<open>
  The local time zone is given by two offsets in milliseconds: the one in force at an
  instant of UTC, and the one by which a local time is read back. A local time that the
  clocks show twice, or skip, at a change of the offset is read with the offset before
  the change.
\<close>

record TimeZone =
  offsetAt :: "int \<Rightarrow> int"
  offsetOfLocal :: "int \<Rightarrow> int"

definition LocalTime :: "TimeZone \<Rightarrow> int \<Rightarrow> int" where
  "LocalTime Z t = t + offsetAt Z t"

definition UTC_of :: "TimeZone \<Rightarrow> int \<Rightarrow> int" where
  "UTC_of Z l = l - offsetOfLocal Z l"

text \<open>
  A local time is shown by the clocks of the zone, at an instant a \<open>Date\<close> can hold,
  when reading it back gives an instant in the range of time values whose local time it
  is. A local time that a change of the offset skips is not shown.
\<close>

definition wallClockShown :: "TimeZone \<Rightarrow> int \<Rightarrow> bool" where
  "wallClockShown Z l =
     (LocalTime Z (UTC_of Z l) = l \<and> \<bar>UTC_of Z l\<bar> \<le> 8640000000000000)"

text \<open>The zone of UTC itself.\<close>

definition utcZone :: TimeZone where
  "utcZone = \<lparr>offsetAt = (\<lambda>t. 0), offsetOfLocal = (\<lambda>l. 0)\<rparr>"

text \<open>
  United States Eastern time from 12 March 2023 to 3 November 2024: four hours behind
  UTC until 5 November 2023, 06:00 UTC, five hours behind until 10 March 2024, 07:00
  UTC, and four hours behind after. The local hour from 01:00 on 5 November 2023 is
  shown twice; the local hour from 02:00 on 10 March 2024 is skipped.
\<close>

definition usEastern :: TimeZone where
  "usEastern =
     \<lparr>offsetAt = (\<lambda>t. if t < 1699164000000 then - 14400000
                        else if t < 1710054000000 then - 18000000 else - 14400000),
      offsetOfLocal = (\<lambda>l. if l < 1699149600000 then - 14400000
                             else if l < 1710039600000 then - 18000000 else - 14400000)\<rparr>"

text \<open>The getters, on a valid time value.\<close>

definition localDay :: "TimeZone \<Rightarrow> int \<Rightarrow> int" where
  "localDay Z t = Day (LocalTime Z t)"

definition getHours :: "TimeZone \<Rightarrow> int \<Rightarrow> int" where
  "getHours Z t = HourFromTime (LocalTime Z t)"

definition getMinutes :: "TimeZone \<Rightarrow> int \<Rightarrow> int" where
  "getMinutes Z t = MinFromTime (LocalTime Z t)"

definition getSeconds :: "TimeZone \<Rightarrow> int \<Rightarrow> int" where
  "getSeconds Z t = SecFromTime (LocalTime Z t)"

definition getMilliseconds :: "TimeZone \<Rightarrow> int \<Rightarrow> int" where
  "getMilliseconds Z t = msFromTime (LocalTime Z t)"

text \<open>
  The setters replace one field of the local time, read the new local time back to
  UTC and clip it; an invalid date stays invalid.
\<close>

definition setHours :: "TimeZone \<Rightarrow> int \<Rightarrow> int option \<Rightarrow> int option" where
  "setHours Z hour d =
     (case d of
        None \<Rightarrow> None
      | Some t \<Rightarrow>
          (let l = LocalTime Z t
           in TimeClip (UTC_of Z
                (MakeDate (Day l) (MakeTime hour (MinFromTime l) (SecFromTime l) (msFromTime l))))))"

definition setMinutes :: "TimeZone \<Rightarrow> int \<Rightarrow> int option \<Rightarrow> int option" where
  "setMinutes Z minute d =
     (case d of
        None \<Rightarrow> None
      | Some t \<Rightarrow>
          (let l = LocalTime Z t
           in TimeClip (UTC_of Z
                (MakeDate (Day l) (MakeTime (HourFromTime l) minute (SecFromTime l) (msFromTime l))))))"

definition setSeconds :: "TimeZone \<Rightarrow> int \<Rightarrow> int option \<Rightarrow> int option" where
  "setSeconds Z sec d =
     (case d of
        None \<Rightarrow> None
      | Some t \<Rightarrow>
          (let l = LocalTime Z t
           in TimeClip (UTC_of Z
                (MakeDate (Day l) (MakeTime (HourFromTime l) (MinFromTime l) sec (msFromTime l))))))"

text \<open>
  \<open>d.setDate(d.getDate() + n)\<close>: the day of the local time moves by \<open>n\<close> calendar
  days (across the ends of months) and the time within the day stays.
\<close>

definition setDate_plus :: "TimeZone \<Rightarrow> int \<Rightarrow> int option \<Rightarrow> int option" where
  "setDate_plus Z n d =
     (case d of
        None \<Rightarrow> None
      | Some t \<Rightarrow>
          (let l = LocalTime Z t
           in TimeClip (UTC_of Z (MakeDate (Day l + n) (TimeWithinDay l)))))"

text \<open>
  \<open>toLocaleDateString('en-US', { weekday: 'short' })\<close>; day 0 was a Thursday, and an
  invalid date is rendered as \<open>Invalid Date\<close>.
\<close>

definition weekdayShort :: "TimeZone \<Rightarrow> int option \<Rightarrow> string" where
  "weekdayShort Z d =
     (case d of
        None \<Rightarrow> ''Invalid Date''
      | Some t \<Rightarrow>
          [''Sun'', ''Mon'', ''Tue'', ''Wed'', ''Thu'', ''Fri'', ''Sat'']
            ! nat ((Day (LocalTime Z t) + 4) mod 7))"

section \<open>Manual time entry\<close>

text \<open>\<open>String.prototype.split\<close> on a one-character separator.\<close>

fun split_on :: "char \<Rightarrow> string \<Rightarrow> string list" where
  "split_on sep [] = [[]]"
| "split_on sep (c # cs) =
     (if c = sep then [] # split_on sep cs
      else (case split_on sep cs of
              [] \<Rightarrow> [[c]]
            | p # ps \<Rightarrow> (c # p) # ps))"

definition isDigit :: "char \<Rightarrow> bool" where
  "isDigit c = (48 \<le> (of_char c :: nat) \<and> (of_char c :: nat) \<le> 57)"

definition digitValue :: "char \<Rightarrow> int" where
  "digitValue c = int (of_char c) - 48"

text \<open>
  \<open>Number\<close> on the texts the value of a time input is made of: the empty text is 0,
  a run of decimal digits is its value, and a text with any other character is taken
  as \<open>NaN\<close> (\<open>None\<close>). The other spellings \<open>Number\<close> reads (signs, fractions,
  exponents, radix prefixes, blanks around the digits) do not occur there.
\<close>

definition Number_str :: "string \<Rightarrow> int option" where
  "Number_str s =
     (if list_all isDigit s then Some (foldl (\<lambda>acc c. acc * 10 + digitValue c) 0 s)
      else None)"

text \<open>
  The value of a time input for hour \<open>h\<close> and minute \<open>m\<close>: two decimal digits
  each, with a colon between them.
\<close>

definition digitChar :: "nat \<Rightarrow> char" where
  "digitChar d = char_of (48 + d)"

definition timeInputValue :: "nat \<Rightarrow> nat \<Rightarrow> string" where
  "timeInputValue h m =
     [digitChar (h div 10), digitChar (h mod 10), CHR '':'',
      digitChar (m div 10), digitChar (m mod 10)]"

text \<open>
  The local time that lies \<open>days\<close> calendar days after the local day of the instant
  \<open>now\<close>, at the given hour, minute and second and at the millisecond of \<open>now\<close>.
\<close>

definition localAt :: "TimeZone \<Rightarrow> int \<Rightarrow> int \<Rightarrow> int \<Rightarrow> int \<Rightarrow> int \<Rightarrow> int" where
  "localAt Z now days hour minute sec =
     MakeDate (localDay Z now + days) (MakeTime hour minute sec (getMilliseconds Z now))"

text \<open>
  \<open>saveManualTime\<close>. \<open>now1\<close> is the clock reading of \<open>new Date()\<close> and \<open>now2\<close> the
  reading of \<open>Date.now()\<close> in the comparison. A missing or \<open>NaN\<close> part makes the date
  invalid; the time value \<open>NaN\<close> of an invalid date fails the comparison and is stored.
\<close>

definition saveManualTime :: "TimeZone \<Rightarrow> int \<Rightarrow> int \<Rightarrow> AppState \<Rightarrow> AppState" where
  "saveManualTime Z now1 now2 s =
     (let parts = map Number_str (split_on CHR '':'' (pickerTime s));
          hours = (if 0 < length parts then parts ! 0 else None);
          minutes = (if 1 < length parts then parts ! 1 else None);
          date0 = TimeClip now1;
          date1 = (case hours of None \<Rightarrow> None | Some h \<Rightarrow> setHours Z h date0);
          date2 = (case minutes of None \<Rightarrow> None | Some m \<Rightarrow> setMinutes Z m date1);
          date3 = setSeconds Z 0 date2;
          date4 = (case date3 of
                     None \<Rightarrow> date3
                   | Some t \<Rightarrow>
                       if t < now2 - 1000 * 60 * 30 then setDate_plus Z 1 date3 else date3)
      in s\<lparr>manualNextFeedingTime := date4,
           isTimePickerOpen := False,
           isAlertVisible := False\<rparr>)"

section \<open>Aggregator\<close>

text \<open>
  \<open>getChartData\<close>. \<open>dailyData\<close> is an object with string keys, whose entries come in
  the order the keys were first assigned: an association list, written by
  \<open>AList.update\<close>, which overwrites in place and appends a new key. The readings of
  the clock within one call are taken as the one instant \<open>now\<close>, so that the day of the
  month of \<open>now\<close> less \<open>i\<close> is the day of \<open>d\<close> moved back by \<open>i\<close>. The result pairs
  each name with its count.
\<close>

definition getChartData :: "TimeZone \<Rightarrow> int \<Rightarrow> LogEntry list \<Rightarrow> (string \<times> nat) list" where
  "getChartData Z now es =
     (let dailyData0 =
            fold (\<lambda>i dailyData.
                    AList.update (weekdayShort Z (setDate_plus Z (- int i) (TimeClip now))) 0 dailyData)
              [0..<7] [];
          dailyData1 =
            fold (\<lambda>e dailyData.
                    (let day = weekdayShort Z (TimeClip (timestamp e))
                     in case map_of dailyData day of
                          None \<Rightarrow> dailyData
                        | Some n \<Rightarrow>
                            if str_includes (type_str (type e)) ''breast'' \<or> type e = bottle
                            then AList.update day (n + 1) dailyData
                            else dailyData))
              es dailyData0
      in rev dailyData1)"

section \<open>Insight client (services/geminiService.ts)\<close>

text \<open>\<open>Array.prototype.slice(start)\<close>: a negative start counts from the end.\<close>

definition slice_from :: "int \<Rightarrow> 'a list \<Rightarrow> 'a list" where
  "slice_from start xs =
     (let len = int (length xs);
          k = (if start < 0 then max (len + start) 0 else min start len)
      in drop (nat k) xs)"

record RecentLog =
  log_type :: EntryType
  log_time :: string
  log_amount :: "rat option"
  log_duration :: "int option"

text \<open>
  The prompt is the template text around the baby's name and the JSON text of
  \<open>recentLogs\<close>; the model keeps the two parts it is built from.
\<close>

record InsightPrompt =
  prompt_babyName :: string
  prompt_logs :: "RecentLog list"

datatype GenerateContentResponse = Response (response_text: "js_text option")

definition recentLogs :: "(int \<Rightarrow> string) \<Rightarrow> LogEntry list \<Rightarrow> RecentLog list" where
  "recentLogs toLocaleString es =
     map (\<lambda>e. \<lparr>log_type = type e, log_time = toLocaleString (timestamp e),
                log_amount = amount e, log_duration = duration e\<rparr>)
       (slice_from (- 20) es)"

definition insightPrompt :: "(int \<Rightarrow> string) \<Rightarrow> LogEntry list \<Rightarrow> string \<Rightarrow> InsightPrompt" where
  "insightPrompt toLocaleString es babyName =
     \<lparr>prompt_babyName = babyName, prompt_logs = recentLogs toLocaleString es\<rparr>"

definition fallbackInsight :: json where
  "fallbackInsight = JObject
     [(''summary'', JString (''I'' @ [CHR 0x27] @ ''m still learning your baby'' @ [CHR 0x27]
                             @ ''s patterns. Keep logging!'')),
      (''prediction'', JString ''Check back after a few more entries.''),
      (''tip'', JString ''Remember to drink plenty of water while breastfeeding.'')]"

text \<open>
  \<open>getSmartInsights\<close>. \<open>toLocaleString\<close> is the platform's rendering of a time and
  \<open>generateContent\<close> the awaited call of the hosted model, which either throws (the
  promise rejects) or delivers a response whose \<open>text\<close> may be undefined.
\<close>

definition getSmartInsights ::
  "(int \<Rightarrow> string) \<Rightarrow> (InsightPrompt \<Rightarrow> js_error + GenerateContentResponse) \<Rightarrow>
     LogEntry list \<Rightarrow> string \<Rightarrow> js_error + json" where
  "getSmartInsights toLocaleString generateContent es babyName =
     (let prompt = insightPrompt toLocaleString es babyName
      in try_catch
           (case generateContent prompt of
              Inl e \<Rightarrow> Inl e
            | Inr response \<Rightarrow>
                JSON_parse
                  (case response_text response of
                     None \<Rightarrow> JSON_text (JObject [])
                   | Some t \<Rightarrow> if truthy_text t then t else JSON_text (JObject [])))
           (\<lambda>error. Inr fallbackInsight))"

section \<open>Auxiliary facts\<close>

subsection \<open>The feeding test\<close>

lemma feeding_test_iff:
  "str_includes (type_str t) ''breast'' \<or> t = bottle \<longleftrightarrow>
     t = breast_left \<or> t = breast_right \<or> t = bottle"
  by (cases t) simp_all

subsection \<open>The periodic check\<close>

lemma checkSchedule_cases:
  "checkSchedule now s = s \<or>
   (\<exists>t. manualNextFeedingTime s = Some t \<and> t \<noteq> 0 \<and> t \<le> now \<and> lastNotifiedRef s \<noteq> Some t \<and>
        checkSchedule now s = (triggerFeedingAlert s)\<lparr>lastNotifiedRef := Some t\<rparr>)"
  by (cases "manualNextFeedingTime s") (auto simp: checkSchedule_def)

lemma checkSchedule_time [simp]:
  "manualNextFeedingTime (checkSchedule now s) = manualNextFeedingTime s"
  using checkSchedule_cases [of now s] by (auto simp: triggerFeedingAlert_def)

lemma checkSchedule_notified:
  "lastNotifiedRef s = manualNextFeedingTime s \<Longrightarrow> checkSchedule now s = s"
  by (cases "manualNextFeedingTime s") (auto simp: checkSchedule_def)

lemma fold_checkSchedule_notified:
  "lastNotifiedRef s = manualNextFeedingTime s \<Longrightarrow> fold checkSchedule nows s = s"
  by (induction nows) (simp_all add: checkSchedule_notified)

lemma fold_checkSchedule_time [simp]:
  "manualNextFeedingTime (fold checkSchedule nows s) = manualNextFeedingTime s"
  by (induction nows arbitrary: s) simp_all

lemma checkSchedule_fired:
  assumes "alertsFired (checkSchedule now s) \<noteq> alertsFired s"
  shows "lastNotifiedRef (checkSchedule now s) = manualNextFeedingTime s"
    and "alertsFired (checkSchedule now s) = alertsFired s + 1"
    and "isAlertVisible (checkSchedule now s)"
  using assms checkSchedule_cases [of now s] by (auto simp: triggerFeedingAlert_def)

lemma fold_checkSchedule_le:
  "alertsFired (fold checkSchedule nows s) \<le> alertsFired s + 1"
proof (induction nows arbitrary: s)
  case Nil
  show ?case by simp
next
  case (Cons now nows)
  show ?case
  proof (cases "alertsFired (checkSchedule now s) = alertsFired s")
    case True
    with Cons.IH [of "checkSchedule now s"] show ?thesis by simp
  next
    case False
    then have "lastNotifiedRef (checkSchedule now s) = manualNextFeedingTime (checkSchedule now s)"
      and "alertsFired (checkSchedule now s) = alertsFired s + 1"
      by (simp_all add: checkSchedule_fired)
    then show ?thesis by (simp add: fold_checkSchedule_notified)
  qed
qed

subsection \<open>Reading the value of a time input\<close>

lemma of_char_digitChar: "d < 10 \<Longrightarrow> (of_char (digitChar d) :: nat) = 48 + d"
  by (simp add: digitChar_def)

lemma digitChar_not_colon: "d < 10 \<Longrightarrow> digitChar d \<noteq> CHR '':''"
proof
  assume "d < 10" and "digitChar d = CHR '':''"
  then have "(of_char (digitChar d) :: nat) = of_char CHR '':''" by simp
  with \<open>d < 10\<close> show False by (simp add: of_char_digitChar)
qed

lemma isDigit_digitChar: "d < 10 \<Longrightarrow> isDigit (digitChar d)"
  by (simp add: isDigit_def of_char_digitChar)

lemma digitValue_digitChar: "d < 10 \<Longrightarrow> digitValue (digitChar d) = int d"
  by (simp add: digitValue_def of_char_digitChar)

lemma Number_str_two_digits:
  "a < 10 \<Longrightarrow> b < 10 \<Longrightarrow> Number_str [digitChar a, digitChar b] = Some (int a * 10 + int b)"
  by (simp add: Number_str_def isDigit_digitChar digitValue_digitChar)

lemma split_timeInputValue:
  assumes "h < 100" and "m < 100"
  shows "split_on CHR '':'' (timeInputValue h m) =
           [[digitChar (h div 10), digitChar (h mod 10)], [digitChar (m div 10), digitChar (m mod 10)]]"
proof -
  have "h div 10 < 10" "h mod 10 < 10" "m div 10 < 10" "m mod 10 < 10"
    using assms by simp_all
  then show ?thesis
    by (simp add: timeInputValue_def digitChar_not_colon)
qed

lemma parse_timeInputValue:
  assumes "h < 100" and "m < 100"
  shows "map Number_str (split_on CHR '':'' (timeInputValue h m)) = [Some (int h), Some (int m)]"
proof -
  have d: "h div 10 < 10" "h mod 10 < 10" "m div 10 < 10" "m mod 10 < 10"
    using assms by simp_all
  have "int (h div 10) * 10 + int (h mod 10) = int h" "int (m div 10) * 10 + int (m mod 10) = int m"
    by (simp_all add: zdiv_int zmod_int)
  with d show ?thesis
    by (simp add: split_timeInputValue assms Number_str_two_digits)
qed

subsection \<open>Sums and products of numbers\<close>

text \<open>
  Up to \<open>2 ^ 53\<close> in magnitude a sum or a product is exact; beyond, it is rounded, as
  in the sum of \<open>2 ^ 53 - 1\<close> and an hour of milliseconds.
\<close>

lemma round_double_exact: "\<bar>x\<bar> \<le> 9007199254740992 \<Longrightarrow> round_double x = x"
  by (simp add: round_double_def)

lemma js_add_exact: "\<bar>a + b\<bar> \<le> 9007199254740992 \<Longrightarrow> js_add a b = a + b"
  by (simp add: js_add_def round_double_exact)

lemma js_mul_exact: "\<bar>a * b\<bar> \<le> 9007199254740992 \<Longrightarrow> js_mul a b = a * b"
  by (simp add: js_mul_def round_double_exact)

lemma js_add_rounds: "js_add 9007199254740991 3600000 = 9007199258340992"
  by code_simp


subsection \<open>The fields of a local time\<close>

lemma field_ranges:
  "0 \<le> HourFromTime l" "HourFromTime l < 24" "0 \<le> MinFromTime l" "MinFromTime l < 60"
  "0 \<le> SecFromTime l" "SecFromTime l < 60" "0 \<le> msFromTime l" "msFromTime l < 1000"
proof -
  have a: "0 \<le> x div k \<and> x div k < n" if "0 \<le> x" "x < n * k" "0 < k" for x k n :: int
  proof
    show "0 \<le> x div k" using that by (simp add: pos_imp_zdiv_nonneg_iff)
    have "k * (x div k) + x mod k = x" by (rule mult_div_mod_eq)
    moreover have "0 \<le> x mod k" using that(3) by simp
    ultimately have "k * (x div k) \<le> x" by linarith
    with that(2) have "x div k * k < n * k" by (simp add: mult.commute)
    with that(3) show "x div k < n" by simp
  qed
  have "0 \<le> l mod 86400000" "l mod 86400000 < 24 * 3600000" by simp_all
  from a [OF this] show "0 \<le> HourFromTime l" "HourFromTime l < 24"
    by (simp_all add: HourFromTime_def msPerDay_def msPerHour_def)
  have "0 \<le> l mod 3600000" "l mod 3600000 < 60 * 60000" by simp_all
  from a [OF this] show "0 \<le> MinFromTime l" "MinFromTime l < 60"
    by (simp_all add: MinFromTime_def msPerHour_def msPerMinute_def)
  have "0 \<le> l mod 60000" "l mod 60000 < 60 * 1000" by simp_all
  from a [OF this] show "0 \<le> SecFromTime l" "SecFromTime l < 60"
    by (simp_all add: SecFromTime_def msPerMinute_def msPerSecond_def)
  show "0 \<le> msFromTime l" "msFromTime l < 1000"
    by (simp_all add: msFromTime_def msPerSecond_def)
qed

lemma made_fields:
  assumes h: "0 \<le> h" "h < 24" and m: "0 \<le> m" "m < 60" and s: "0 \<le> sec" "sec < 60"
    and ms: "0 \<le> ms" "ms < 1000"
  shows "Day (MakeDate d (MakeTime h m sec ms)) = d"
    and "TimeWithinDay (MakeDate d (MakeTime h m sec ms)) = MakeTime h m sec ms"
    and "HourFromTime (MakeDate d (MakeTime h m sec ms)) = h"
    and "MinFromTime (MakeDate d (MakeTime h m sec ms)) = m"
    and "SecFromTime (MakeDate d (MakeTime h m sec ms)) = sec"
    and "msFromTime (MakeDate d (MakeTime h m sec ms)) = ms"
proof -
  define x where "x = MakeDate d (MakeTime h m sec ms)"
  have x: "x = d * 86400000 + h * 3600000 + m * 60000 + sec * 1000 + ms"
    by (simp add: x_def MakeDate_def MakeTime_def msPerDay_def msPerHour_def msPerMinute_def
        msPerSecond_def)
  have rd: "0 \<le> h * 3600000 + m * 60000 + sec * 1000 + ms"
    "h * 3600000 + m * 60000 + sec * 1000 + ms < 86400000"
    using h m s ms by linarith+
  have rh: "0 \<le> m * 60000 + sec * 1000 + ms" "m * 60000 + sec * 1000 + ms < 3600000"
    using m s ms by linarith+
  have rm: "0 \<le> sec * 1000 + ms" "sec * 1000 + ms < 60000"
    using s ms by linarith+
  have day: "x div 86400000 = d"
    by (rule int_div_pos_eq [where r = "h * 3600000 + m * 60000 + sec * 1000 + ms"])
      (use x rd in simp_all)
  have inday: "x mod 86400000 = h * 3600000 + m * 60000 + sec * 1000 + ms"
    by (rule int_mod_pos_eq [where q = d]) (use x rd in simp_all)
  have hour: "(h * 3600000 + m * 60000 + sec * 1000 + ms) div 3600000 = h"
    by (rule int_div_pos_eq [where r = "m * 60000 + sec * 1000 + ms"]) (use rh in simp_all)
  have inhour: "x mod 3600000 = m * 60000 + sec * 1000 + ms"
    by (rule int_mod_pos_eq [where q = "d * 24 + h"]) (use x rh in simp_all)
  have minute: "(m * 60000 + sec * 1000 + ms) div 60000 = m"
    by (rule int_div_pos_eq [where r = "sec * 1000 + ms"]) (use rm in simp_all)
  have inminute: "x mod 60000 = sec * 1000 + ms"
    by (rule int_mod_pos_eq [where q = "(d * 24 + h) * 60 + m"]) (use x rm in simp_all)
  have second: "(sec * 1000 + ms) div 1000 = sec"
    by (rule int_div_pos_eq [where r = ms]) (use ms in simp_all)
  have insecond: "x mod 1000 = ms"
    by (rule int_mod_pos_eq [where q = "((d * 24 + h) * 60 + m) * 60 + sec"]) (use x ms in simp_all)
  show "Day (MakeDate d (MakeTime h m sec ms)) = d"
    using day by (simp add: Day_def msPerDay_def x_def)
  show "TimeWithinDay (MakeDate d (MakeTime h m sec ms)) = MakeTime h m sec ms"
    using inday by (simp add: TimeWithinDay_def msPerDay_def x_def [symmetric])
      (simp add: MakeTime_def msPerHour_def msPerMinute_def msPerSecond_def)
  show "HourFromTime (MakeDate d (MakeTime h m sec ms)) = h"
    using inday hour by (simp add: HourFromTime_def msPerDay_def msPerHour_def x_def [symmetric])
  show "MinFromTime (MakeDate d (MakeTime h m sec ms)) = m"
    using inhour minute by (simp add: MinFromTime_def msPerHour_def msPerMinute_def x_def [symmetric])
  show "SecFromTime (MakeDate d (MakeTime h m sec ms)) = sec"
    using inminute second by (simp add: SecFromTime_def msPerMinute_def msPerSecond_def x_def [symmetric])
  show "msFromTime (MakeDate d (MakeTime h m sec ms)) = ms"
    using insecond by (simp add: msFromTime_def msPerSecond_def x_def [symmetric])
qed

lemma TimeClip_shown: "wallClockShown Z l \<Longrightarrow> TimeClip (UTC_of Z l) = Some (UTC_of Z l)"
  by (simp add: wallClockShown_def TimeClip_def)

lemma LocalTime_shown: "wallClockShown Z l \<Longrightarrow> LocalTime Z (UTC_of Z l) = l"
  by (simp add: wallClockShown_def)

lemma wallClockShown_fixed:
  assumes "offsetAt Z = (\<lambda>t. c)" and "offsetOfLocal Z = (\<lambda>l. c)"
    and "\<bar>l - c\<bar> \<le> 8640000000000000"
  shows "wallClockShown Z l"
  using assms by (simp add: wallClockShown_def LocalTime_def UTC_of_def)

subsection \<open>The setters where the clocks show the local times\<close>

lemma setters_shown:
  assumes h: "0 \<le> h" "h < 24" and m: "0 \<le> m" "m < 60"
    and now: "\<bar>now\<bar> \<le> 8640000000000000"
    and s1: "wallClockShown Z (localAt Z now 0 h (getMinutes Z now) (getSeconds Z now))"
    and s2: "wallClockShown Z (localAt Z now 0 h m (getSeconds Z now))"
    and s3: "wallClockShown Z (localAt Z now 0 h m 0)"
  shows "setSeconds Z 0 (setMinutes Z m (setHours Z h (TimeClip now)))
           = Some (UTC_of Z (localAt Z now 0 h m 0))"
proof -
  define l0 where "l0 = LocalTime Z now"
  define l1 where "l1 = localAt Z now 0 h (getMinutes Z now) (getSeconds Z now)"
  define l2 where "l2 = localAt Z now 0 h m (getSeconds Z now)"
  define l3 where "l3 = localAt Z now 0 h m 0"
  note r = field_ranges [of l0]
  have l1: "l1 = MakeDate (Day l0) (MakeTime h (MinFromTime l0) (SecFromTime l0) (msFromTime l0))"
    by (simp add: l1_def l0_def localAt_def localDay_def getMinutes_def getSeconds_def
        getMilliseconds_def)
  have l2: "l2 = MakeDate (Day l0) (MakeTime h m (SecFromTime l0) (msFromTime l0))"
    by (simp add: l2_def l0_def localAt_def localDay_def getSeconds_def getMilliseconds_def)
  have l3: "l3 = MakeDate (Day l0) (MakeTime h m 0 (msFromTime l0))"
    by (simp add: l3_def l0_def localAt_def localDay_def getMilliseconds_def)
  note f1 = made_fields [OF h r(3,4) r(5,6) r(7,8), of "Day l0", folded l1]
  note f2 = made_fields [OF h m r(5,6) r(7,8), of "Day l0", folded l2]
  have step1: "setHours Z h (TimeClip now) = Some (UTC_of Z l1)"
    using now TimeClip_shown [OF s1]
    by (simp add: setHours_def TimeClip_def Let_def l1 l0_def l1_def [symmetric])
  have step2: "setMinutes Z m (Some (UTC_of Z l1)) = Some (UTC_of Z l2)"
    using TimeClip_shown [OF s2] LocalTime_shown [OF s1]
    by (simp add: setMinutes_def Let_def l1_def [symmetric] l2_def [symmetric] f1 l2)
  have step3: "setSeconds Z 0 (Some (UTC_of Z l2)) = Some (UTC_of Z l3)"
    using TimeClip_shown [OF s3] LocalTime_shown [OF s2]
    by (simp add: setSeconds_def Let_def l2_def [symmetric] l3_def [symmetric] f2 l3)
  show ?thesis
    by (simp add: step1 step2 step3 l3_def)
qed

lemma shown_fields:
  assumes h: "0 \<le> h" "h < 24" and m: "0 \<le> m" "m < 60" and s: "0 \<le> sec" "sec < 60"
    and shown: "wallClockShown Z (localAt Z now days h m sec)"
  shows "localDay Z (UTC_of Z (localAt Z now days h m sec)) = localDay Z now + days"
    and "getHours Z (UTC_of Z (localAt Z now days h m sec)) = h"
    and "getMinutes Z (UTC_of Z (localAt Z now days h m sec)) = m"
    and "getSeconds Z (UTC_of Z (localAt Z now days h m sec)) = sec"
    and "getMilliseconds Z (UTC_of Z (localAt Z now days h m sec)) = getMilliseconds Z now"
proof -
  have ms: "0 \<le> getMilliseconds Z now" "getMilliseconds Z now < 1000"
    using field_ranges(7,8) [of "LocalTime Z now"] by (simp_all add: getMilliseconds_def)
  note f = made_fields [OF h m s ms, of "localDay Z now + days", folded localAt_def]
  show "localDay Z (UTC_of Z (localAt Z now days h m sec)) = localDay Z now + days"
    using f(1) by (simp add: localDay_def [of Z "UTC_of Z _"] LocalTime_shown [OF shown])
  show "getHours Z (UTC_of Z (localAt Z now days h m sec)) = h"
    using f(3) by (simp add: getHours_def LocalTime_shown [OF shown])
  show "getMinutes Z (UTC_of Z (localAt Z now days h m sec)) = m"
    using f(4) by (simp add: getMinutes_def LocalTime_shown [OF shown])
  show "getSeconds Z (UTC_of Z (localAt Z now days h m sec)) = sec"
    using f(5) by (simp add: getSeconds_def LocalTime_shown [OF shown])
  show "getMilliseconds Z (UTC_of Z (localAt Z now days h m sec)) = getMilliseconds Z now"
    using f(6) by (simp add: getMilliseconds_def [of Z "UTC_of Z _"] LocalTime_shown [OF shown])
qed

lemma setDate_plus_shown:
  assumes h: "0 \<le> h" "h < 24" and m: "0 \<le> m" "m < 60" and s: "0 \<le> sec" "sec < 60"
    and shown: "wallClockShown Z (localAt Z now days h m sec)"
  shows "setDate_plus Z n (Some (UTC_of Z (localAt Z now days h m sec)))
           = TimeClip (UTC_of Z (localAt Z now (days + n) h m sec))"
proof -
  have ms: "0 \<le> getMilliseconds Z now" "getMilliseconds Z now < 1000"
    using field_ranges(7,8) [of "LocalTime Z now"] by (simp_all add: getMilliseconds_def)
  note f = made_fields [OF h m s ms, of "localDay Z now + days", folded localAt_def]
  show ?thesis
    using f(1,2)
    by (simp add: setDate_plus_def Let_def LocalTime_shown [OF shown])
      (simp add: localAt_def add.assoc)
qed

lemma saveManualTime_parsed:
  assumes "h < 24" and "m < 60" and "pickerTime s = timeInputValue h m"
  shows "manualNextFeedingTime (saveManualTime Z now1 now2 s) =
           (case setSeconds Z 0 (setMinutes Z (int m) (setHours Z (int h) (TimeClip now1))) of
              None \<Rightarrow> None
            | Some t \<Rightarrow>
                if t < now2 - 1000 * 60 * 30
                then setDate_plus Z 1 (Some t)
                else Some t)"
  using assms by (simp add: saveManualTime_def parse_timeInputValue Let_def split: option.splits)


subsection \<open>The entries of the prompt\<close>

lemma recentLogs_oldest:
  assumes "20 < length es"
  shows "recentLogs toLocaleString es =
           map (\<lambda>e. \<lparr>log_type = type e, log_time = toLocaleString (timestamp e),
                      log_amount = amount e, log_duration = duration e\<rparr>)
             (drop (length es - 20) es)"
proof -
  have "nat (max (int (length es) - 20) 0) = length es - 20"
    using assms by simp
  then show ?thesis
    by (simp add: recentLogs_def slice_from_def)
qed

section \<open>Claims\<close>

subsection \<open>C1: at most one alert for a scheduled time\<close>

text \<open>
  Claim C1. Whatever the state and whatever the times of a run of periodic checks, the
  run fires the alert at most once and leaves the scheduled time as it was; and when a
  check has fired (the count of alerts went up), it has set \<open>lastNotifiedRef\<close> to the
  scheduled time, and no run of later checks at any times fires again.
\<close>

theorem checkSchedule_at_most_once:
  "alertsFired (fold checkSchedule nows s) \<le> alertsFired s + 1 \<and>
   manualNextFeedingTime (fold checkSchedule nows s) = manualNextFeedingTime s \<and>
   (alertsFired (checkSchedule now s) \<noteq> alertsFired s \<longrightarrow>
      lastNotifiedRef (checkSchedule now s) = manualNextFeedingTime s \<and>
      alertsFired (fold checkSchedule later (checkSchedule now s)) = alertsFired s + 1)"
  using fold_checkSchedule_le [of nows s] checkSchedule_fired [of now s]
  by (auto simp: fold_checkSchedule_notified)

text \<open>
  An instance of C1: a feeding scheduled for 1700000000000 is checked once before it
  is due and three times after; the first check after the due time fires, and the
  count stays at one.
\<close>

theorem checkSchedule_at_most_once_witness:
  "alertsFired
     (fold checkSchedule [1699999995000, 1700000000000, 1700000005000, 1700000010000]
        ((initialState granted ''08:00'')\<lparr>manualNextFeedingTime := Some 1700000000000\<rparr>)) = 1 \<and>
   alertsFired
     (checkSchedule 1700000000000
        ((initialState granted ''08:00'')\<lparr>manualNextFeedingTime := Some 1700000000000\<rparr>))
     \<noteq> alertsFired ((initialState granted ''08:00'')\<lparr>manualNextFeedingTime := Some 1700000000000\<rparr>) \<and>
   lastNotifiedRef
     (checkSchedule 1700000000000
        ((initialState granted ''08:00'')\<lparr>manualNextFeedingTime := Some 1700000000000\<rparr>))
     = Some 1700000000000 \<and>
   alertsFired
     (fold checkSchedule [1700000005000, 1700000010000]
        (checkSchedule 1700000000000
           ((initialState granted ''08:00'')\<lparr>manualNextFeedingTime := Some 1700000000000\<rparr>))) = 1"
  using checkSchedule_at_most_once
    [of "[1699999995000, 1700000000000, 1700000005000, 1700000010000]"
        "(initialState granted ''08:00'')\<lparr>manualNextFeedingTime := Some 1700000000000\<rparr>"
        1700000000000 "[1700000005000, 1700000010000]"]
  by (simp add: checkSchedule_def triggerFeedingAlert_def initialState_def)

subsection \<open>C2: a feeding entry arms the scheduler\<close>

text \<open>
  Claim C2. Appending an entry of a feeding type (either breast side or bottle) to any
  state sets the next feeding time to the second clock reading plus three hours, a
  value the program reads as set; the entry carries the first clock reading as its
  timestamp, so with the two readings of one call at most a second apart (and not
  before the epoch) the next feeding time is within a second of the append time plus
  three hours. The alert is hidden, the last-notified marker is cleared, and a check
  at the time of the append does not fire: the schedule is set and not yet due.
\<close>

theorem addEntry_feeding_arms:
  assumes "ty = breast_left \<or> ty = breast_right \<or> ty = bottle"
    and "\<bar>now2 - now1\<bar> \<le> 1000" and "0 \<le> now1"
  shows "manualNextFeedingTime (addEntry newId now1 now2 ty amt dur s)
           = Some (now2 + 3 * 60 * 60 * 1000) \<and>
         truthy_time (manualNextFeedingTime (addEntry newId now1 now2 ty amt dur s)) \<and>
         \<bar>(now2 + 3 * 60 * 60 * 1000)
            - (timestamp (hd (entries (addEntry newId now1 now2 ty amt dur s))) + 3 * 60 * 60 * 1000)\<bar>
           \<le> 1000 \<and>
         \<not> isAlertVisible (addEntry newId now1 now2 ty amt dur s) \<and>
         lastNotifiedRef (addEntry newId now1 now2 ty amt dur s) = None \<and>
         checkSchedule now2 (addEntry newId now1 now2 ty amt dur s)
           = addEntry newId now1 now2 ty amt dur s"
  using assms by (auto simp: addEntry_def checkSchedule_def Let_def)

text \<open>
  An instance of C2: a bottle is logged in a state that had already notified for an
  elapsed schedule and still shows the alert.
\<close>

theorem addEntry_feeding_arms_witness:
  "\<bar>1700000000001 - 1700000000000 :: int\<bar> \<le> 1000 \<and>
   manualNextFeedingTime
     (addEntry ''k3x9'' 1700000000000 1700000000001 bottle (Some 4) None
        ((initialState granted ''08:00'')\<lparr>manualNextFeedingTime := Some 1699999000000,
            lastNotifiedRef := Some 1699999000000, isAlertVisible := True\<rparr>))
     = Some 1700010800001 \<and>
   \<not> isAlertVisible
     (addEntry ''k3x9'' 1700000000000 1700000000001 bottle (Some 4) None
        ((initialState granted ''08:00'')\<lparr>manualNextFeedingTime := Some 1699999000000,
            lastNotifiedRef := Some 1699999000000, isAlertVisible := True\<rparr>)) \<and>
   lastNotifiedRef
     (addEntry ''k3x9'' 1700000000000 1700000000001 bottle (Some 4) None
        ((initialState granted ''08:00'')\<lparr>manualNextFeedingTime := Some 1699999000000,
            lastNotifiedRef := Some 1699999000000, isAlertVisible := True\<rparr>)) = None"
  using addEntry_feeding_arms [of bottle 1700000000001 1700000000000 "''k3x9''" "Some 4" None
      "(initialState granted ''08:00'')\<lparr>manualNextFeedingTime := Some 1699999000000,
            lastNotifiedRef := Some 1699999000000, isAlertVisible := True\<rparr>"]
  by simp

subsection \<open>C3: the weekly feeding histogram\<close>

text \<open>
  Claim C3 asks for seven buckets, one per day of the trailing seven local calendar
  days from oldest to newest, each counting the feedings of its own day and nothing
  else. \<open>getChartData\<close> keys the buckets by the short weekday name, so it gives the
  seven buckets in that order but counts a feeding of any week under its weekday.
  Evaluated in UTC on Tuesday 14 November 2023 (local day 19675) with a single bottle
  logged on Tuesday 7 November (local day 19668, before the trailing seven days), the
  bucket of the 14th reports one feeding.
\<close>

theorem getChartData_counts_older_week:
  "getChartData utcZone 1700000000000
     [\<lparr>entry_id = ''k3x9'', type = bottle, timestamp = 1699395200000, duration = None,
       amount = Some 4, note_text = None\<rparr>]
   = [(''Wed'', 0), (''Thu'', 0), (''Fri'', 0), (''Sat'', 0), (''Sun'', 0), (''Mon'', 0), (''Tue'', 1)] \<and>
   localDay utcZone 1700000000000 = 19675 \<and> localDay utcZone 1699395200000 = 19668"
  by code_simp

subsection \<open>C4: the entries of the insight request\<close>

text \<open>
  Claim C4 asks for the 20 most recent entries. The store keeps the newest entry
  first, and \<open>getSmartInsights\<close> takes the last 20 of the sequence
  (\<open>recentLogs_oldest\<close>). Evaluated on the store after 21 appends, one a minute,
  the prompt holds the entries of minutes 20 down to 1: the newest entry, of minute
  21, is left out and the oldest is kept.
\<close>

theorem insightPrompt_leaves_out_newest:
  "map timestamp (entries (fold (\<lambda>n. addEntry [digitChar (n div 10), digitChar (n mod 10)]
            (1700000000000 + int n * 60000) (1700000000000 + int n * 60000) diaper_wet None None)
         [1..<22] (initialState default ''08:00'')))
    = map (\<lambda>n. 1700000000000 + int n * 60000) (rev [1..<22]) \<and>
   prompt_logs (insightPrompt toLocaleString
      (entries (fold (\<lambda>n. addEntry [digitChar (n div 10), digitChar (n mod 10)]
            (1700000000000 + int n * 60000) (1700000000000 + int n * 60000) diaper_wet None None)
         [1..<22] (initialState default ''08:00''))) ''Soleice'')
    = map (\<lambda>n. \<lparr>log_type = diaper_wet, log_time = toLocaleString (1700000000000 + int n * 60000),
                  log_amount = None, log_duration = None\<rparr>) (rev [1..<21])"
  by code_simp

subsection \<open>C5: loading the entries\<close>

text \<open>
  Claim C5, as stated, fails where the stored text is not JSON: \<open>JSON.parse\<close> throws
  and the initializer lets the error through.
\<close>

theorem initialEntries_corrupt_counterexample:
  "initialEntries [''nurture_logs'' \<mapsto> Other_text ''not json''] = Inl SyntaxError \<and>
   initialEntries [''nurture_logs'' \<mapsto> Other_text ''not json''] \<noteq> Inr (JArray [])"
  by (simp add: initialEntries_def)

text \<open>
  Claim C5, amended. If the item \<open>nurture_logs\<close> is absent or holds the empty string,
  loading yields the empty sequence and does not fail. If it holds a non-empty text
  that is not JSON, loading fails with the \<open>SyntaxError\<close> of \<open>JSON.parse\<close>. A JSON
  text is loaded as the value it denotes.
\<close>

theorem initialEntries_absent_or_corrupt:
  "(localStorage ''nurture_logs'' = None \<or> localStorage ''nurture_logs'' = Some (Other_text [])
      \<longrightarrow> initialEntries localStorage = Inr (JArray [])) \<and>
   (localStorage ''nurture_logs'' = Some (Other_text txt) \<and> txt \<noteq> []
      \<longrightarrow> initialEntries localStorage = Inl SyntaxError) \<and>
   (localStorage ''nurture_logs'' = Some (JSON_text v)
      \<longrightarrow> initialEntries localStorage = Inr v)"
  by (auto simp: initialEntries_def)

text \<open>
  Instances of the amended C5: an empty storage, a storage that holds only the photo,
  and a storage whose entries text breaks off after two characters.
\<close>

theorem initialEntries_absent_or_corrupt_witness:
  "initialEntries Map.empty = Inr (JArray []) \<and>
   initialEntries [''nurture_baby_photo'' \<mapsto> Other_text ''data:image/png;base64,AAAA'']
     = Inr (JArray []) \<and>
   initialEntries [''nurture_logs'' \<mapsto> Other_text ''[{''] = Inl SyntaxError"
  using initialEntries_absent_or_corrupt [of Map.empty]
    initialEntries_absent_or_corrupt
      [of "[''nurture_baby_photo'' \<mapsto> Other_text ''data:image/png;base64,AAAA'']"]
    initialEntries_absent_or_corrupt [of "[''nurture_logs'' \<mapsto> Other_text ''[{'']" "''[{''"]
  by simp

subsection \<open>C6: manual time entry\<close>

text \<open>
  Claim C6, as stated, fails where a change of the zone's offset skips the picked
  time. In United States Eastern time on 10 March 2024 the clocks go from 02:00 to
  03:00. With 02:30 picked at 01:50 that night, \<open>setHours\<close> lands on 03:50 and
  \<open>setMinutes\<close> on 03:30, which is not more than 30 minutes before the clock and is
  stored: the feeding is scheduled for 03:30 of that day, not for 02:30.
\<close>

theorem saveManualTime_skipped_hour_counterexample:
  "pickerTime (initialState default ''02:30'') = timeInputValue 2 30 \<and>
   getHours usEastern 1710053400000 = 1 \<and> getMinutes usEastern 1710053400000 = 50 \<and>
   manualNextFeedingTime
     (saveManualTime usEastern 1710053400000 1710053400001 (initialState default ''02:30''))
     = Some 1710055800000 \<and>
   localDay usEastern 1710055800000 = localDay usEastern 1710053400000 \<and>
   getHours usEastern 1710055800000 = 3 \<and> getMinutes usEastern 1710055800000 = 30 \<and>
   getHours usEastern 1710055800000 \<noteq> 2"
  by code_simp

text \<open>
  Claim C6, amended. Let the time picker hold hour \<open>h\<close> and minute \<open>m\<close>, let the clock
  reading be a time value, and let the clocks of the zone show, today, the three local
  times the setters pass through: \<open>h\<close> with the minute and second of the clock,
  \<open>h:m\<close> with the second of the clock, and \<open>h:m:00\<close> (none is skipped by a change of
  the offset). Then the instant of \<open>h:m:00\<close> today lies on the local calendar day of
  the clock reading, at hour \<open>h\<close>, minute \<open>m\<close> and second zero. If it is not more than
  30 minutes before the second clock reading, it becomes the next feeding time;
  otherwise the date is moved on by one calendar day, and the next feeding time is
  \<open>h:m:00\<close> of the next calendar day if the clocks show that time then. In particular,
  with 08:00 picked while the clock shows 09:00 (hour 9, minute 0), the offset being
  the same at both times and 08:00 being shown the next day, the next feeding time is
  08:00:00 on the following calendar day.
\<close>

theorem saveManualTime_next_occurrence:
  fixes h m :: nat
  assumes "h < 24" and "m < 60" and "pickerTime s = timeInputValue h m"
    and "\<bar>now1\<bar> \<le> 8640000000000000"
    and "wallClockShown Z (localAt Z now1 0 (int h) (getMinutes Z now1) (getSeconds Z now1))"
    and "wallClockShown Z (localAt Z now1 0 (int h) (int m) (getSeconds Z now1))"
    and "wallClockShown Z (localAt Z now1 0 (int h) (int m) 0)"
  shows
    "(let date = UTC_of Z (localAt Z now1 0 (int h) (int m) 0)
      in localDay Z date = localDay Z now1 \<and> getHours Z date = int h \<and>
         getMinutes Z date = int m \<and> getSeconds Z date = 0 \<and>
         (\<not> date < now2 - 30 * 60 * 1000 \<longrightarrow>
            manualNextFeedingTime (saveManualTime Z now1 now2 s) = Some date) \<and>
         (date < now2 - 30 * 60 * 1000 \<longrightarrow>
            manualNextFeedingTime (saveManualTime Z now1 now2 s) = setDate_plus Z 1 (Some date)) \<and>
         (date < now2 - 30 * 60 * 1000 \<and> wallClockShown Z (localAt Z now1 1 (int h) (int m) 0) \<longrightarrow>
            manualNextFeedingTime (saveManualTime Z now1 now2 s)
              = Some (UTC_of Z (localAt Z now1 1 (int h) (int m) 0)) \<and>
            localDay Z (UTC_of Z (localAt Z now1 1 (int h) (int m) 0)) = localDay Z now1 + 1 \<and>
            getHours Z (UTC_of Z (localAt Z now1 1 (int h) (int m) 0)) = int h \<and>
            getMinutes Z (UTC_of Z (localAt Z now1 1 (int h) (int m) 0)) = int m \<and>
            getSeconds Z (UTC_of Z (localAt Z now1 1 (int h) (int m) 0)) = 0)) \<and>
     (h = 8 \<and> m = 0 \<and> getHours Z now1 = 9 \<and> getMinutes Z now1 = 0 \<and> now1 \<le> now2 \<and>
      offsetOfLocal Z (localAt Z now1 0 8 0 0) = offsetAt Z now1 \<and>
      wallClockShown Z (localAt Z now1 1 8 0 0) \<longrightarrow>
        (\<exists>r. manualNextFeedingTime (saveManualTime Z now1 now2 s) = Some r \<and>
             localDay Z r = localDay Z now1 + 1 \<and>
             getHours Z r = 8 \<and> getMinutes Z r = 0 \<and> getSeconds Z r = 0))"
proof -
  define date where "date = UTC_of Z (localAt Z now1 0 (int h) (int m) 0)"
  have hm: "0 \<le> int h" "int h < 24" "0 \<le> int m" "int m < 60"
    using assms(1,2) by simp_all
  have z: "(0::int) \<le> 0" "(0::int) < 60" by simp_all
  have built: "setSeconds Z 0 (setMinutes Z (int m) (setHours Z (int h) (TimeClip now1))) = Some date"
    unfolding date_def by (rule setters_shown [OF hm assms(4-7)])
  have res: "manualNextFeedingTime (saveManualTime Z now1 now2 s) =
               (if date < now2 - 1000 * 60 * 30 then setDate_plus Z 1 (Some date) else Some date)"
    using saveManualTime_parsed [OF assms(1-3), of Z now1 now2] by (simp add: built)
  note f0 = shown_fields [OF hm z assms(7), folded date_def]
  have next_day: "setDate_plus Z 1 (Some date) = Some (UTC_of Z (localAt Z now1 1 (int h) (int m) 0))"
    if "wallClockShown Z (localAt Z now1 1 (int h) (int m) 0)"
    using setDate_plus_shown [OF hm z assms(7), of 1] TimeClip_shown [OF that]
    by (simp add: date_def)
  have f1: "localDay Z (UTC_of Z (localAt Z now1 1 (int h) (int m) 0)) = localDay Z now1 + 1 \<and>
            getHours Z (UTC_of Z (localAt Z now1 1 (int h) (int m) 0)) = int h \<and>
            getMinutes Z (UTC_of Z (localAt Z now1 1 (int h) (int m) 0)) = int m \<and>
            getSeconds Z (UTC_of Z (localAt Z now1 1 (int h) (int m) 0)) = 0"
    if "wallClockShown Z (localAt Z now1 1 (int h) (int m) 0)"
    using shown_fields [OF hm z that] by simp
  have rolled: "date < now2 - 1000 * 60 * 30"
    if "h = 8" "m = 0" "getHours Z now1 = 9" "getMinutes Z now1 = 0" "now1 \<le> now2"
      "offsetOfLocal Z (localAt Z now1 0 8 0 0) = offsetAt Z now1"
  proof -
    define L where "L = LocalTime Z now1"
    have "L = (L div 86400000) * 86400000 + L mod 86400000" by simp
    moreover have "L mod 86400000 = ((L mod 86400000) div 3600000) * 3600000 + (L mod 86400000) mod 3600000"
      by simp
    moreover have "0 \<le> (L mod 86400000) mod 3600000" by simp
    moreover have "(L mod 86400000) div 3600000 = 9"
      using that(3) by (simp add: getHours_def HourFromTime_def L_def msPerDay_def msPerHour_def)
    ultimately have low: "L \<ge> (L div 86400000) * 86400000 + 9 * 3600000" by linarith
    have "msFromTime L < 1000" by (rule field_ranges)
    then have "localAt Z now1 0 8 0 0 < (L div 86400000) * 86400000 + 8 * 3600000 + 1000"
      by (simp add: localAt_def localDay_def Day_def getMilliseconds_def MakeDate_def MakeTime_def
          L_def msPerDay_def msPerHour_def msPerMinute_def msPerSecond_def)
    moreover have "date = localAt Z now1 0 8 0 0 - offsetAt Z now1"
      using that(1,2,6) by (simp add: date_def UTC_of_def)
    moreover have "now1 = L - offsetAt Z now1"
      by (simp add: L_def LocalTime_def)
    ultimately show ?thesis using low that(5) by linarith
  qed
  show ?thesis
    unfolding Let_def date_def [symmetric]
    using f0 f1 res rolled next_day by (auto simp: date_def)
qed

text \<open>
  An instance of the amended C6, across the end of daylight saving time: in United
  States Eastern time, 08:00 is picked on 4 November 2023 at 09:00:10.123, and the
  feeding is scheduled for 08:00:00.123 on 5 November, 25 hours after 08:00:00.123 of
  the 4th.
\<close>

theorem saveManualTime_next_occurrence_witness:
  "pickerTime (initialState default ''08:00'') = timeInputValue 8 0 \<and>
   wallClockShown usEastern (localAt usEastern 1699102810123 0 8 0 0) \<and>
   wallClockShown usEastern (localAt usEastern 1699102810123 1 8 0 0) \<and>
   getHours usEastern 1699102810123 = 9 \<and> getMinutes usEastern 1699102810123 = 0 \<and>
   manualNextFeedingTime
     (saveManualTime usEastern 1699102810123 1699102810124 (initialState default ''08:00''))
     = Some 1699189200123 \<and>
   localDay usEastern 1699189200123 = localDay usEastern 1699102810123 + 1 \<and>
   getHours usEastern 1699189200123 = 8 \<and> getMinutes usEastern 1699189200123 = 0 \<and>
   getSeconds usEastern 1699189200123 = 0"
proof -
  have picker: "pickerTime (initialState default ''08:00'') = timeInputValue 8 0"
    by code_simp
  have now: "\<bar>1699102810123 :: int\<bar> \<le> 8640000000000000"
    by simp
  have s1: "wallClockShown usEastern
              (localAt usEastern 1699102810123 0 (int 8) (getMinutes usEastern 1699102810123)
                 (getSeconds usEastern 1699102810123))"
    by code_simp
  have s2: "wallClockShown usEastern
              (localAt usEastern 1699102810123 0 (int 8) (int 0) (getSeconds usEastern 1699102810123))"
    by code_simp
  have s3: "wallClockShown usEastern (localAt usEastern 1699102810123 0 (int 8) (int 0) 0)"
    by code_simp
  have s4: "wallClockShown usEastern (localAt usEastern 1699102810123 1 8 0 0)"
    by code_simp
  have vals: "UTC_of usEastern (localAt usEastern 1699102810123 0 8 0 0) = 1699099200123 \<and>
              UTC_of usEastern (localAt usEastern 1699102810123 1 8 0 0) = 1699189200123 \<and>
              getHours usEastern 1699102810123 = 9 \<and> getMinutes usEastern 1699102810123 = 0 \<and>
              localDay usEastern 1699102810123 = 19665"
    by code_simp
  have next_day: "setDate_plus usEastern 1 (Some 1699099200123) = Some 1699189200123"
    by code_simp
  from saveManualTime_next_occurrence [OF _ _ picker now s1 s2 s3, of 1699102810124]
  show ?thesis
    using picker s3 s4 vals by (simp add: Let_def next_day)
qed

subsection \<open>C7: adjusting by an hour and back\<close>

text \<open>
  Claim C7. In every state whose next feeding time is set to a time after the epoch,
  as it is in every armed state (one whose time is not yet due at a clock reading not
  before the epoch), and is at most \<open>2 ^ 53 - 3600000\<close>, so that the time an hour
  later is an integer a number holds exactly (every time value a \<open>Date\<close> can hold is
  below that), the adjustment by +60 minutes followed by the adjustment by -60 minutes,
  at any two clock readings, restores the next feeding time, and each of the two calls
  leaves the alert hidden.
\<close>

theorem adjustNextFeed_inverse:
  assumes "manualNextFeedingTime s = Some t" and "0 < t" and "t \<le> 9007199251140992"
  shows "manualNextFeedingTime (adjustNextFeed now2 (- 60) (adjustNextFeed now1 60 s)) = Some t \<and>
         \<not> isAlertVisible (adjustNextFeed now1 60 s) \<and>
         \<not> isAlertVisible (adjustNextFeed now2 (- 60) (adjustNextFeed now1 60 s))"
proof -
  have up: "js_mul (js_mul 60 60) 1000 = 3600000"
    by (simp add: js_mul_exact)
  have down: "js_mul (js_mul (- 60) 60) 1000 = - 3600000"
    by (simp add: js_mul_exact)
  have 1: "js_add t 3600000 = t + 3600000"
    using assms(2,3) by (simp add: js_add_exact)
  have 2: "js_add (t + 3600000) (- 3600000) = t"
    using assms(2,3) by (simp add: js_add_exact)
  show ?thesis
    using assms by (simp add: adjustNextFeed_def up down 1 2)
qed

text \<open>An instance of C7: a schedule at 1700000000000 with the alert showing.\<close>

theorem adjustNextFeed_inverse_witness:
  "manualNextFeedingTime
     (adjustNextFeed 1699999000500 (- 60)
        (adjustNextFeed 1699999000000 60
           ((initialState default ''08:00'')\<lparr>manualNextFeedingTime := Some 1700000000000,
               isAlertVisible := True\<rparr>)))
     = Some 1700000000000 \<and>
   \<not> isAlertVisible
     (adjustNextFeed 1699999000000 60
        ((initialState default ''08:00'')\<lparr>manualNextFeedingTime := Some 1700000000000,
            isAlertVisible := True\<rparr>)) \<and>
   \<not> isAlertVisible
     (adjustNextFeed 1699999000500 (- 60)
        (adjustNextFeed 1699999000000 60
           ((initialState default ''08:00'')\<lparr>manualNextFeedingTime := Some 1700000000000,
               isAlertVisible := True\<rparr>)))"
  using adjustNextFeed_inverse
    [of "(initialState default ''08:00'')\<lparr>manualNextFeedingTime := Some 1700000000000,
            isAlertVisible := True\<rparr>" 1700000000000 1699999000500 1699999000000]
  by simp

subsection \<open>C8: updating an amount\<close>

text \<open>
  Claim C8. \<open>updateEntryAmount\<close> keeps the length of the entry sequence. At every
  position, an entry whose id is the given one becomes the same entry with the new
  amount (its id, type, timestamp, duration and note are as before), and an entry with
  another id is unchanged. If no entry has the given id, the sequence is unchanged.
\<close>

theorem updateEntryAmount_frame:
  "length (entries (updateEntryAmount ident newAmount s)) = length (entries s) \<and>
   (\<forall>k < length (entries s).
      (entry_id (entries s ! k) = ident \<longrightarrow>
         entries (updateEntryAmount ident newAmount s) ! k = (entries s ! k)\<lparr>amount := Some newAmount\<rparr> \<and>
         entry_id (entries (updateEntryAmount ident newAmount s) ! k) = entry_id (entries s ! k) \<and>
         type (entries (updateEntryAmount ident newAmount s) ! k) = type (entries s ! k) \<and>
         timestamp (entries (updateEntryAmount ident newAmount s) ! k) = timestamp (entries s ! k) \<and>
         duration (entries (updateEntryAmount ident newAmount s) ! k) = duration (entries s ! k) \<and>
         note_text (entries (updateEntryAmount ident newAmount s) ! k) = note_text (entries s ! k)) \<and>
      (entry_id (entries s ! k) \<noteq> ident \<longrightarrow>
         entries (updateEntryAmount ident newAmount s) ! k = entries s ! k)) \<and>
   (ident \<notin> entry_id ` set (entries s) \<longrightarrow>
      entries (updateEntryAmount ident newAmount s) = entries s)"
proof -
  have "map (\<lambda>e. if entry_id e = ident then e\<lparr>amount := Some newAmount\<rparr> else e) (entries s) = entries s"
    if "ident \<notin> entry_id ` set (entries s)"
    by (rule map_idI) (use that in auto)
  then show ?thesis by (simp add: updateEntryAmount_def)
qed

text \<open>
  An instance of C8: of a bottle and a sleep entry, the bottle's amount is set to 5.5;
  an id that no entry has changes nothing.
\<close>

theorem updateEntryAmount_frame_witness:
  "entries
     (updateEntryAmount ''a1'' (11 / 2)
        ((initialState default ''08:00'')
           \<lparr>entries :=
              [\<lparr>entry_id = ''a1'', type = bottle, timestamp = 1700000000000, duration = None,
                 amount = Some 4, note_text = None\<rparr>,
               \<lparr>entry_id = ''b2'', type = sleep, timestamp = 1699990000000, duration = Some 45,
                 amount = None, note_text = None\<rparr>]\<rparr>))
     = [\<lparr>entry_id = ''a1'', type = bottle, timestamp = 1700000000000, duration = None,
         amount = Some (11 / 2), note_text = None\<rparr>,
        \<lparr>entry_id = ''b2'', type = sleep, timestamp = 1699990000000, duration = Some 45,
         amount = None, note_text = None\<rparr>] \<and>
   entries
     (updateEntryAmount ''zz'' (11 / 2)
        ((initialState default ''08:00'')
           \<lparr>entries :=
              [\<lparr>entry_id = ''a1'', type = bottle, timestamp = 1700000000000, duration = None,
                 amount = Some 4, note_text = None\<rparr>,
               \<lparr>entry_id = ''b2'', type = sleep, timestamp = 1699990000000, duration = Some 45,
                 amount = None, note_text = None\<rparr>]\<rparr>))
     = [\<lparr>entry_id = ''a1'', type = bottle, timestamp = 1700000000000, duration = None,
         amount = Some 4, note_text = None\<rparr>,
        \<lparr>entry_id = ''b2'', type = sleep, timestamp = 1699990000000, duration = Some 45,
         amount = None, note_text = None\<rparr>]"
  using updateEntryAmount_frame
    [of "''a1''" "11 / 2"
        "(initialState default ''08:00'')
           \<lparr>entries :=
              [\<lparr>entry_id = ''a1'', type = bottle, timestamp = 1700000000000, duration = None,
                 amount = Some 4, note_text = None\<rparr>,
               \<lparr>entry_id = ''b2'', type = sleep, timestamp = 1699990000000, duration = Some 45,
                 amount = None, note_text = None\<rparr>]\<rparr>"]
  by (simp add: updateEntryAmount_def)

subsection \<open>C9: failures of the insight call\<close>

text \<open>
  Claim C9, as stated, fails for a response without text. A missing text and the empty
  string are not JSON, yet \<open>getSmartInsights\<close> reads them as \<open>{}\<close> and returns the
  empty object, which has none of the three strings of the fallback.
\<close>

theorem getSmartInsights_empty_text_counterexample:
  "getSmartInsights (\<lambda>t. '''') (\<lambda>p. Inr (Response None)) [] ''Soleice'' = Inr (JObject []) \<and>
   getSmartInsights (\<lambda>t. '''') (\<lambda>p. Inr (Response (Some (Other_text '''')))) [] ''Soleice''
     = Inr (JObject []) \<and>
   Inr (JObject []) \<noteq> (Inr fallbackInsight :: js_error + json)"
  by (simp add: getSmartInsights_def try_catch_def fallbackInsight_def)

text \<open>
  Claim C9, amended. No exception escapes \<open>getSmartInsights\<close>, whatever the call of
  the hosted model does. If that call throws, or if the text of its response is a
  non-empty text that is not JSON, the result is the fixed fallback triple. If the
  text is missing or empty, the result is the empty object; a JSON text is returned as
  the value it denotes.
\<close>

theorem getSmartInsights_failure:
  "(\<exists>v. getSmartInsights toLocaleString generateContent es babyName = Inr v) \<and>
   (generateContent (insightPrompt toLocaleString es babyName) = Inl e \<longrightarrow>
      getSmartInsights toLocaleString generateContent es babyName = Inr fallbackInsight) \<and>
   (generateContent (insightPrompt toLocaleString es babyName) = Inr (Response (Some (Other_text txt)))
      \<and> txt \<noteq> [] \<longrightarrow>
      getSmartInsights toLocaleString generateContent es babyName = Inr fallbackInsight) \<and>
   (generateContent (insightPrompt toLocaleString es babyName) = Inr (Response None) \<or>
    generateContent (insightPrompt toLocaleString es babyName) = Inr (Response (Some (Other_text [])))
      \<longrightarrow> getSmartInsights toLocaleString generateContent es babyName = Inr (JObject [])) \<and>
   (generateContent (insightPrompt toLocaleString es babyName) = Inr (Response (Some (JSON_text v)))
      \<longrightarrow> getSmartInsights toLocaleString generateContent es babyName = Inr v)"
proof -
  have "\<exists>v. getSmartInsights toLocaleString generateContent es babyName = Inr v"
    by (cases "generateContent (insightPrompt toLocaleString es babyName)")
      (auto simp: getSmartInsights_def try_catch_def split: sum.splits)
  then show ?thesis
    by (auto simp: getSmartInsights_def try_catch_def)
qed

text \<open>
  Instances of the amended C9: the request fails, the response breaks off inside the
  object, and the response has no text.
\<close>

theorem getSmartInsights_failure_witness:
  "getSmartInsights (\<lambda>t. '''') (\<lambda>p. Inl (RequestError ''fetch failed'')) [] ''Soleice''
     = Inr fallbackInsight \<and>
   getSmartInsights (\<lambda>t. '''') (\<lambda>p. Inr (Response (Some (Other_text ''{ summary:'')))) [] ''Soleice''
     = Inr fallbackInsight \<and>
   getSmartInsights (\<lambda>t. '''') (\<lambda>p. Inr (Response None)) [] ''Soleice'' = Inr (JObject [])"
  using getSmartInsights_failure [of "\<lambda>t. ''''" "\<lambda>p. Inl (RequestError ''fetch failed'')" "[]" "''Soleice''" "RequestError ''fetch failed''"]
    getSmartInsights_failure [of "\<lambda>t. ''''" "\<lambda>p. Inr (Response (Some (Other_text ''{ summary:'')))" "[]" "''Soleice''" _ "''{ summary:''"]
    getSmartInsights_failure [of "\<lambda>t. ''''" "\<lambda>p. Inr (Response None)" "[]" "''Soleice''"]
  by simp

subsection \<open>C10: an entry that is not a feeding\<close>

text \<open>
  Claim C10. Appending an entry of a type that is not a feeding type (a diaper type or
  sleep) changes the state in one place only: the new entry is put in front of the
  entry sequence. The next feeding time, the last-notified marker and the visibility
  of the alert keep their values.
\<close>

theorem addEntry_other_frame:
  assumes "ty = diaper_wet \<or> ty = diaper_dirty \<or> ty = diaper_both \<or> ty = sleep"
  shows "addEntry newId now1 now2 ty amt dur s =
           s\<lparr>entries := \<lparr>entry_id = newId, type = ty, timestamp = now1, duration = dur,
                            amount = amt, note_text = None\<rparr> # entries s\<rparr> \<and>
         manualNextFeedingTime (addEntry newId now1 now2 ty amt dur s) = manualNextFeedingTime s \<and>
         lastNotifiedRef (addEntry newId now1 now2 ty amt dur s) = lastNotifiedRef s \<and>
         isAlertVisible (addEntry newId now1 now2 ty amt dur s) = isAlertVisible s"
  using assms by (auto simp: addEntry_def Let_def)

text \<open>
  An instance of C10: a wet diaper is logged while a notified schedule shows its alert.
\<close>

theorem addEntry_other_frame_witness:
  "addEntry ''q7'' 1700000000000 1700000000001 diaper_wet None None
     ((initialState granted ''08:00'')\<lparr>manualNextFeedingTime := Some 1699999000000,
         lastNotifiedRef := Some 1699999000000, isAlertVisible := True\<rparr>)
   = (initialState granted ''08:00'')
       \<lparr>entries := [\<lparr>entry_id = ''q7'', type = diaper_wet, timestamp = 1700000000000,
                      duration = None, amount = None, note_text = None\<rparr>],
        manualNextFeedingTime := Some 1699999000000,
        lastNotifiedRef := Some 1699999000000, isAlertVisible := True\<rparr>"
  using addEntry_other_frame
    [of diaper_wet "''q7''" 1700000000000 1700000000001 None None
        "(initialState granted ''08:00'')\<lparr>manualNextFeedingTime := Some 1699999000000,
            lastNotifiedRef := Some 1699999000000, isAlertVisible := True\<rparr>"]
  by (simp add: initialState_def)

end
